theory Spec2Isabelle
  imports Complex_Main
begin

section \<open>Streaming payments: the accrual ledger of the frontend script\<close>

text \<open>
  The script keeps its streams in the array \<open>streams\<close> and mutates the objects of that
  array in place. The model passes the array explicitly as a list and returns the
  updated list.

  Instants are the millisecond time values of dates (\<open>Date.now()\<close>, \<open>getTime()\<close>), integers
  below \<open>2^53\<close> in magnitude, modelled as \<open>int\<close>; invalid dates (\<open>NaN\<close>) are not modelled.
  \<open>Date.now()\<close> is read several times inside one operation; every reading is a parameter
  of its own, in the order of the source.

  The functions of the script return nothing: what they report they show in an alert
  (the amount printed with \<open>toFixed(2)\<close>) or leave unsaid. The model returns, next to the
  array, the number that goes into the alert (\<open>returned\<close>, \<open>claimable\<close>, \<open>totalClaimed\<close>)
  or the kind of failure. Rendering and \<open>saveStreams\<close> do not change \<open>streams\<close> and are
  left out.
\<close>

subsection \<open>Numbers\<close>

text \<open>
  The amounts (\<open>total\<close>, \<open>rate\<close>, \<open>claimed\<close>) are JavaScript numbers, IEEE 754 binary64
  values. The model holds a finite number as the rational it denotes and rounds the
  exact result of every \<open>+\<close>, \<open>-\<close>, \<open>*\<close> and \<open>/\<close> of the script to the nearest binary64
  value, ties to even, with 53 significant bits and the subnormal numbers below
  \<open>2^-1022\<close>. \<open>NaN\<close> and the infinities are not modelled: a result beyond the largest
  binary64 number, where the script has \<open>Infinity\<close>, is the rounded number of that size
  here, and the script never divides by zero (it divides by \<open>1000\<close>, \<open>60\<close> and
  \<open>seconds >= 1\<close>). Comparisons, \<open>Math.min\<close> and \<open>Math.max\<close> are exact.
\<close>

fun bitLength :: "nat \<Rightarrow> nat" where
  "bitLength n = (if n = 0 then 0 else Suc (bitLength (n div 2)))"

declare bitLength.simps [simp del]

definition pow2 :: "int \<Rightarrow> rat" where
  "pow2 k = (if k \<ge> 0 then 2 ^ nat k else 1 / 2 ^ nat (- k))"

text \<open>For \<open>a > 0\<close>, \<open>expo a\<close> is the exponent \<open>e\<close> with \<open>2^e <= a < 2^(e+1)\<close>.\<close>

definition expo :: "rat \<Rightarrow> int" where
  "expo a =
     (if a \<ge> 1 then int (bitLength (nat \<lfloor>a\<rfloor>)) - 1
      else - int (bitLength (nat (\<lceil>1 / a\<rceil> - 1))))"

definition roundHalfEven :: "rat \<Rightarrow> int" where
  "roundHalfEven r =
     (let n = \<lfloor>r\<rfloor>; d = r - of_int n
      in if d < 1 / 2 then n else if d > 1 / 2 then n + 1 else if even n then n else n + 1)"

text \<open>
  \<open>fl x\<close> is the binary64 number nearest to \<open>x\<close>: a multiple of \<open>2^q\<close>, where \<open>q\<close> is 52
  below the exponent of \<open>x\<close> and never below \<open>-1074\<close>.
\<close>

definition fl :: "rat \<Rightarrow> rat" where
  "fl x =
     (if x = 0 then 0
      else (let a = \<bar>x\<bar>; q = max (expo a) (- 1022) - 52
            in sgn x * of_int (roundHalfEven (a / pow2 q)) * pow2 q))"

definition fadd :: "rat \<Rightarrow> rat \<Rightarrow> rat" where
  "fadd a b = fl (a + b)"

definition fsub :: "rat \<Rightarrow> rat \<Rightarrow> rat" where
  "fsub a b = fl (a - b)"

definition fmul :: "rat \<Rightarrow> rat \<Rightarrow> rat" where
  "fmul a b = fl (a * b)"

definition fdiv :: "rat \<Rightarrow> rat \<Rightarrow> rat" where
  "fdiv a b = fl (a / b)"

subsection \<open>Data model\<close>

datatype status = Active | Cancelled | Paid

text \<open>
  The object literal of \<open>createStreamObject\<close>. The field \<open>id\<close> is called \<open>sid\<close> and
  the field \<open>end\<close> is called \<open>endT\<close>. \<open>cancelledAt\<close> is \<open>null\<close> (\<open>None\<close>) or a timestamp.
  The two identities are strings, compared for equality and emptiness only.
\<close>

record stream =
  sid :: int
  sender :: string
  recipient :: string
  total :: rat
  rate :: rat
  start :: int
  endT :: int
  cancelledAt :: "int option"
  claimed :: rat
  status :: status
  createdAt :: int

text \<open>
  The outcomes of an operation that does not go through: \<open>StreamNotFound\<close> is the silent
  \<open>if(!s) return\<close>, \<open>Unauthorized\<close> the alert "Only the stream recipient can claim funds.",
  \<open>NotActive\<close> the alert "Not active", \<open>NothingToClaim\<close> the alert "Nothing to claim",
  \<open>NoRecipientName\<close> the alert "Enter recipient name" of the claim-all handler.
\<close>

datatype error = StreamNotFound | Unauthorized | NotActive | NothingToClaim | NoRecipientName

definition FIXED_PER_MINUTE :: rat where
  "FIXED_PER_MINUTE = 1"

text \<open>The literal \<open>1e-6\<close> is the binary64 number nearest to one millionth.\<close>

definition eps :: rat where
  "eps = fl (1 / 1000000)"

subsection \<open>createStreamObject\<close>

text \<open>
  \<open>start\<close> and \<open>end\<close> are the \<open>getTime()\<close> values of the two dates, \<open>totalAda\<close> is \<open>null\<close>
  (\<open>None\<close>) or a number, \<open>uid\<close> is the value of \<open>uid()\<close> and \<open>created\<close> the reading of
  \<open>Date.now()\<close> for \<open>createdAt\<close>.
\<close>

definition createStreamObject ::
  "string \<Rightarrow> int \<Rightarrow> int \<Rightarrow> rat option \<Rightarrow> int \<Rightarrow> int \<Rightarrow> stream" where
  "createStreamObject recipient' startMs endMs totalAda uid created =
     (let seconds = max 1 (fdiv (fsub (of_int endMs) (of_int startMs)) 1000);
          minutes = fdiv seconds 60;
          (total', rate') =
            (case totalAda of
               Some t \<Rightarrow>
                 if t > 0 then (t, fdiv t seconds)
                 else (fmul FIXED_PER_MINUTE minutes, fdiv FIXED_PER_MINUTE 60)
             | None \<Rightarrow> (fmul FIXED_PER_MINUTE minutes, fdiv FIXED_PER_MINUTE 60))
      in \<lparr> sid = uid, sender = ''You (Local)'', recipient = recipient',
           total = total', rate = rate', start = startMs, endT = endMs,
           cancelledAt = None, claimed = 0, status = Active, createdAt = created \<rparr>)"

subsection \<open>calcAccrued\<close>

text \<open>
  Both tests on \<open>cancelledAt\<close> are truthiness tests: \<open>null\<close> and the number \<open>0\<close> are
  falsy, so a cancellation time of \<open>0\<close> is treated like an absent one.
\<close>

definition effectiveEnd :: "stream \<Rightarrow> int" where
  "effectiveEnd s =
     (case cancelledAt s of
        None \<Rightarrow> endT s
      | Some c \<Rightarrow> if c = 0 then endT s else min (endT s) c)"

definition calcAccrued :: "stream \<Rightarrow> int \<Rightarrow> rat" where
  "calcAccrued s now =
     (if now \<le> start s then 0
      else (let elapsed = fsub (of_int (min now (effectiveEnd s))) (of_int (start s));
                accrued = fmul (rate s) (fdiv elapsed 1000)
            in min accrued (total s)))"

subsection \<open>Looking a stream up and mutating it in place\<close>

text \<open>
  \<open>streams.find(x => x.id === id)\<close> is the first element with that id; the assignments
  to its fields change that element of the array and no other.
\<close>

definition findStream :: "int \<Rightarrow> stream list \<Rightarrow> stream option" where
  "findStream i streams = find (\<lambda>x. sid x = i) streams"

fun updateFirst :: "int \<Rightarrow> (stream \<Rightarrow> stream) \<Rightarrow> stream list \<Rightarrow> stream list" where
  "updateFirst i f [] = []"
| "updateFirst i f (x # xs) = (if sid x = i then f x # xs else x # updateFirst i f xs)"

subsection \<open>updateStatuses and renderAll\<close>

fun updateStatuses :: "int \<Rightarrow> stream list \<Rightarrow> stream list" where
  "updateStatuses now [] = []"
| "updateStatuses now (s # ss) =
     (if status s = Active
      then (if now \<ge> endT s then s\<lparr>status := Paid\<rparr> else s)
      else s) # updateStatuses now ss"

text \<open>Of \<open>renderAll\<close> only the call of \<open>updateStatuses\<close> touches the streams.\<close>

definition renderAll :: "int \<Rightarrow> stream list \<Rightarrow> stream list" where
  "renderAll now streams = updateStatuses now streams"

subsection \<open>cancelStream\<close>

text \<open>
  \<open>now\<close> is the reading of line 254, \<open>nowR\<close> the one of the \<open>updateStatuses\<close> that
  \<open>renderAll\<close> runs at the end. The number of the result is \<open>returned\<close>, which the alert
  prints ("Returned ... to sender").
\<close>

definition cancelMutation :: "int \<Rightarrow> stream \<Rightarrow> stream" where
  "cancelMutation now s =
     (let accrued = calcAccrued s now
      in if fadd (claimed s) eps \<ge> accrued
         then s\<lparr>status := Paid, cancelledAt := Some now\<rparr>
         else s\<lparr>status := Cancelled, cancelledAt := Some now\<rparr>)"

definition cancelStream ::
  "int \<Rightarrow> int \<Rightarrow> int \<Rightarrow> stream list \<Rightarrow> (error + rat) \<times> stream list" where
  "cancelStream i now nowR streams =
     (case findStream i streams of
        None \<Rightarrow> (Inl StreamNotFound, streams)
      | Some s \<Rightarrow>
          if status s \<noteq> Active then (Inl NotActive, streams)
          else (let accrued = calcAccrued s now;
                    returned = fsub (total s) accrued
                in (Inr returned, renderAll nowR (updateFirst i (cancelMutation now) streams))))"

subsection \<open>claimForStream\<close>

text \<open>
  \<open>toLowerCase\<close> is a function of the JavaScript engine, not of the script; it is the
  parameter \<open>lower\<close> of every operation that compares identities, and nothing is assumed
  about it. \<open>now\<close> is the reading of line 280, \<open>now2\<close> the second reading inside the
  test of line 287, \<open>nowR\<close> the one of the final \<open>renderAll\<close>. The number of the result
  is \<open>claimable\<close>, which the alert prints.
\<close>

definition claimMutation :: "rat \<Rightarrow> int \<Rightarrow> stream \<Rightarrow> stream" where
  "claimMutation claimable now2 s =
     (let s1 = s\<lparr>claimed := fadd (claimed s) claimable\<rparr>
      in if fadd (claimed s1) eps \<ge> min (total s1) (calcAccrued s1 now2)
         then s1\<lparr>status := Paid\<rparr>
         else s1)"

definition claimForStream ::
  "(string \<Rightarrow> string) \<Rightarrow> int \<Rightarrow> string \<Rightarrow> int \<Rightarrow> int \<Rightarrow> int \<Rightarrow> stream list \<Rightarrow>
     (error + rat) \<times> stream list" where
  "claimForStream lower i recipient' now now2 nowR streams =
     (case findStream i streams of
        None \<Rightarrow> (Inl StreamNotFound, streams)
      | Some s \<Rightarrow>
          if recipient' = [] \<or> lower recipient' \<noteq> lower (recipient s)
          then (Inl Unauthorized, streams)
          else (let accrued = calcAccrued s now;
                    claimable = max 0 (fsub accrued (claimed s))
                in if claimable \<le> 0 then (Inl NothingToClaim, streams)
                   else (Inr claimable,
                         renderAll nowR (updateFirst i (claimMutation claimable now2) streams))))"

subsection \<open>The claim-all handler\<close>

text \<open>
  The handler of \<open>claimAllBtn\<close>. \<open>name\<close> is the trimmed input, \<open>now\<close> the reading before
  the loop; inside the loop every stream that is paid out reads \<open>Date.now()\<close> again,
  \<open>now2 k\<close> for the element at index \<open>k\<close>. \<open>totalClaimed\<close> is summed in the order of the
  array. The status test of the loop names all three statuses, so it holds for every
  stream.
\<close>

fun claimAllLoop ::
  "(string \<Rightarrow> string) \<Rightarrow> string \<Rightarrow> int \<Rightarrow> (nat \<Rightarrow> int) \<Rightarrow> nat \<Rightarrow> rat \<Rightarrow> stream list \<Rightarrow>
     rat \<times> stream list" where
  "claimAllLoop lower name now now2 k totalClaimed [] = (totalClaimed, [])"
| "claimAllLoop lower name now now2 k totalClaimed (s # ss) =
     (if lower (recipient s) = lower name \<and>
         (status s = Active \<or> status s = Cancelled \<or> status s = Paid)
      then (let accrued = fsub (calcAccrued s now) (claimed s)
            in if accrued > 0
               then (let (t, ss') =
                           claimAllLoop lower name now now2 (Suc k) (fadd totalClaimed accrued) ss
                     in (t, claimMutation accrued (now2 k) s # ss'))
               else (let (t, ss') = claimAllLoop lower name now now2 (Suc k) totalClaimed ss
                     in (t, s # ss')))
      else (let (t, ss') = claimAllLoop lower name now now2 (Suc k) totalClaimed ss
            in (t, s # ss')))"

definition claimAll ::
  "(string \<Rightarrow> string) \<Rightarrow> string \<Rightarrow> int \<Rightarrow> (nat \<Rightarrow> int) \<Rightarrow> int \<Rightarrow> stream list \<Rightarrow>
     (error + rat) \<times> stream list" where
  "claimAll lower name now now2 nowR streams =
     (if name = [] then (Inl NoRecipientName, streams)
      else (let (totalClaimed, ss') = claimAllLoop lower name now now2 0 0 streams
            in (Inr totalClaimed, renderAll nowR ss')))"

subsection \<open>Sequences of operations\<close>

text \<open>
  Modelled from the spec: the step of \<open>create\<close> that stores the new stream. The script
  defines \<open>createStreamObject\<close> but no caller puts its result into \<open>streams\<close>; following
  the description of the ledger's \<open>create\<close>, the new object is appended to the array.
\<close>

definition create ::
  "string \<Rightarrow> int \<Rightarrow> int \<Rightarrow> rat option \<Rightarrow> int \<Rightarrow> int \<Rightarrow> stream list \<Rightarrow> stream list" where
  "create recipient' startMs endMs totalAda uid created streams =
     streams @ [createStreamObject recipient' startMs endMs totalAda uid created]"

text \<open>
  One constructor per operation, with its arguments and clock readings. \<open>Reconcile\<close> is
  the call of \<open>renderAll\<close> by the timer.
\<close>

datatype op =
    Create string int int "rat option" int int
  | Claim int string int int int
  | Cancel int int int
  | ClaimAll string int "nat \<Rightarrow> int" int
  | Reconcile int

fun applyOp :: "(string \<Rightarrow> string) \<Rightarrow> op \<Rightarrow> stream list \<Rightarrow> stream list" where
  "applyOp lower (Create r st en tot uid cr) streams = create r st en tot uid cr streams"
| "applyOp lower (Claim i r now now2 nowR) streams =
     snd (claimForStream lower i r now now2 nowR streams)"
| "applyOp lower (Cancel i now nowR) streams = snd (cancelStream i now nowR streams)"
| "applyOp lower (ClaimAll name now now2 nowR) streams =
     snd (claimAll lower name now now2 nowR streams)"
| "applyOp lower (Reconcile now) streams = renderAll now streams"

fun run :: "(string \<Rightarrow> string) \<Rightarrow> op list \<Rightarrow> stream list \<Rightarrow> stream list" where
  "run lower [] streams = streams"
| "run lower (x # xs) streams = run lower xs (applyOp lower x streams)"

subsection \<open>The accrual formula as the specification words it\<close>

text \<open>
  Here \<open>cancelledAt\<close> counts as set whenever it is not \<open>null\<close>; the arithmetic is that of
  the script. These two definitions are only compared with \<open>calcAccrued\<close>.
\<close>

definition effectiveEnd_spec :: "stream \<Rightarrow> int" where
  "effectiveEnd_spec s =
     (case cancelledAt s of None \<Rightarrow> endT s | Some c \<Rightarrow> min (endT s) c)"

definition accrued_spec :: "stream \<Rightarrow> int \<Rightarrow> rat" where
  "accrued_spec s now =
     (if now \<le> start s then 0
      else min (fmul (rate s)
                  (fdiv (fsub (of_int (min now (effectiveEnd_spec s))) (of_int (start s))) 1000))
             (total s))"

subsection \<open>What one sweep does to one stream\<close>

text \<open>The body of the \<open>forEach\<close> of \<open>updateStatuses\<close>, used to state lemmas about it.\<close>

definition sweepOne :: "int \<Rightarrow> stream \<Rightarrow> stream" where
  "sweepOne now s = (if status s = Active \<and> endT s \<le> now then s\<lparr>status := Paid\<rparr> else s)"

subsection \<open>How a stream can change\<close>

text \<open>
  \<open>laterState s s'\<close> collects what every operation keeps of a stream: its id and start,
  a Paid status, and the \<open>cancelledAt\<close> of a stream that is not Active before or still
  Active after. \<open>cancelledSettled\<close> says that a stream with a \<open>cancelledAt\<close> is not Active.
\<close>

definition laterState :: "stream \<Rightarrow> stream \<Rightarrow> bool" where
  "laterState s s' \<longleftrightarrow>
     sid s' = sid s \<and> start s' = start s \<and>
     (status s = Paid \<longrightarrow> status s' = Paid) \<and>
     (status s \<noteq> Active \<longrightarrow> status s' \<noteq> Active \<and> cancelledAt s' = cancelledAt s) \<and>
     (status s' = Active \<longrightarrow> cancelledAt s' = cancelledAt s)"

definition cancelledSettled :: "stream \<Rightarrow> bool" where
  "cancelledSettled s \<longleftrightarrow> (cancelledAt s \<noteq> None \<longrightarrow> status s \<noteq> Active)"

subsection \<open>Example streams\<close>

text \<open>A stream of 100 over 100 seconds that starts at \<open>1000000\<close>, as created.\<close>

definition fresh :: stream where
  "fresh = createStreamObject ''bob'' 1000000 1100000 (Some 100) 1 999000"

text \<open>The same stream with 30 claimed, and with a little less than 30 claimed.\<close>

definition claimed30 :: stream where
  "claimed30 =
     \<lparr> sid = 1, sender = ''You (Local)'', recipient = ''bob'', total = 100, rate = 1,
       start = 1000000, endT = 1100000, cancelledAt = None, claimed = 30, status = Active,
       createdAt = 999000 \<rparr>"

definition claimedNearly30 :: stream where
  "claimedNearly30 =
     \<lparr> sid = 1, sender = ''You (Local)'', recipient = ''bob'', total = 100, rate = 1,
       start = 1000000, endT = 1100000, cancelledAt = None,
       claimed = 527765572536387 / 17592186044416, status = Active, createdAt = 999000 \<rparr>"

text \<open>A stream of 1 over 5000 seconds, as created, and a stream whose rate is \<open>0.001\<close>.\<close>

definition slowStream :: stream where
  "slowStream = createStreamObject ''bob'' 0 5000000 (Some 1) 3 0"

definition milliStream :: stream where
  "milliStream =
     \<lparr> sid = 4, sender = ''You (Local)'', recipient = ''bob'', total = 1,
       rate = 1152921504606847 / 1152921504606846976,
       start = 0, endT = 1000000, cancelledAt = None, claimed = 0, status = Active,
       createdAt = 0 \<rparr>"

text \<open>
  A stream of 100 for the window \<open>-50000 .. 50000\<close>, as created, and the same stream
  after its cancellation at the instant \<open>0\<close>.
\<close>

definition acrossEpoch :: stream where
  "acrossEpoch = createStreamObject ''bob'' (- 50000) 50000 (Some 100) 1 (- 60000)"

definition epochCancelled :: stream where
  "epochCancelled =
     \<lparr> sid = 1, sender = ''You (Local)'', recipient = ''bob'', total = 100, rate = 1,
       start = - 50000, endT = 50000, cancelledAt = Some 0, claimed = 0, status = Cancelled,
       createdAt = - 60000 \<rparr>"

text \<open>Three streams at the sweep of instant \<open>200000\<close>: only the first is Active and over.\<close>

definition sweepExample :: "stream list" where
  "sweepExample =
     [ \<lparr> sid = 1, sender = ''You (Local)'', recipient = ''bob'', total = 100, rate = 1,
         start = 0, endT = 100000, cancelledAt = None, claimed = 0, status = Active,
         createdAt = 0 \<rparr>,
       \<lparr> sid = 2, sender = ''You (Local)'', recipient = ''carol'', total = 100, rate = 1,
         start = 150000, endT = 250000, cancelledAt = None, claimed = 0, status = Active,
         createdAt = 0 \<rparr>,
       \<lparr> sid = 3, sender = ''You (Local)'', recipient = ''dave'', total = 100, rate = 1,
         start = 0, endT = 100000, cancelledAt = Some 30000, claimed = 0, status = Cancelled,
         createdAt = 0 \<rparr> ]"

text \<open>The first stream of \<open>sweepExample\<close> after the sweep: Paid with nothing claimed.\<close>

definition sweptUnclaimed :: stream where
  "sweptUnclaimed =
     \<lparr> sid = 1, sender = ''You (Local)'', recipient = ''bob'', total = 100, rate = 1,
       start = 0, endT = 100000, cancelledAt = None, claimed = 0, status = Paid,
       createdAt = 0 \<rparr>"

text \<open>An Active stream whose sender is \<open>alice\<close>.\<close>

definition aliceStream :: stream where
  "aliceStream =
     \<lparr> sid = 5, sender = ''alice'', recipient = ''bob'', total = 100, rate = 1,
       start = 1000000, endT = 1100000, cancelledAt = None, claimed = 0, status = Active,
       createdAt = 999000 \<rparr>"

text \<open>
  A stream of 100 over 300 seconds, as created, after a claim at 998 ms, and after a
  second claim at 9103 ms.
\<close>

definition thirds :: stream where
  "thirds = createStreamObject ''bob'' 0 300000 (Some 100) 1 0"

definition thirdsClaimedOnce :: stream where
  "thirdsClaimedOnce =
     \<lparr> sid = 1, sender = ''You (Local)'', recipient = ''bob'', total = 100,
       rate = 6004799503160661 / 18014398509481984,
       start = 0, endT = 300000, cancelledAt = None,
       claimed = 1498197476038585 / 4503599627370496, status = Paid, createdAt = 0 \<rparr>"

definition thirdsClaimedTwice :: stream where
  "thirdsClaimedTwice =
     \<lparr> sid = 1, sender = ''You (Local)'', recipient = ''bob'', total = 100,
       rate = 6004799503160661 / 18014398509481984,
       start = 0, endT = 300000, cancelledAt = None,
       claimed = 854088904332367 / 281474976710656, status = Paid, createdAt = 0 \<rparr>"

subsection \<open>Example runs\<close>

text \<open>The stream created for the window \<open>100000 .. 200000\<close> after its cancellation at \<open>50000\<close>.\<close>

definition earlyCancelled :: stream where
  "earlyCancelled =
     \<lparr> sid = 1, sender = ''You (Local)'', recipient = ''bob'', total = 100, rate = 1,
       start = 100000, endT = 200000, cancelledAt = Some 50000, claimed = 0, status = Paid,
       createdAt = 0 \<rparr>"

text \<open>
  The stream of 100 over 100 seconds cancelled 30 seconds after its start, and what
  is tried on it afterwards.
\<close>

definition cancelMid :: "op list" where
  "cancelMid = [Create ''bob'' 1000000 1100000 (Some 100) 1 999000, Cancel 1 1030000 1030000]"

definition afterCancel :: "op list" where
  "afterCancel = [Claim 1 ''bob'' 1040000 1040000 1040000, Reconcile 1200000,
                  Cancel 1 1300000 1300000, ClaimAll ''bob'' 1400000 (\<lambda>k. 1400000) 1400000]"

text \<open>What is tried on the stream that the sweep has marked Paid.\<close>

definition onPaid :: "op list" where
  "onPaid = [Cancel 1 200000 200000, Claim 1 ''bob'' 200000 200000 200000, Reconcile 300000]"

section \<open>Properties\<close>

subsection \<open>Evaluating the arithmetic\<close>

text \<open>
  Rules that compute \<open>fl\<close> on numerals: the floor and ceiling of a quotient of numerals,
  the bit length of a numeral, and the rounding of a positive number.
\<close>

lemma floor_rat_numeral:
  "\<lfloor>(numeral a :: rat) / numeral b\<rfloor> = numeral a div numeral b"
  using floor_divide_of_int_eq [where ?'a = rat, of "numeral a" "numeral b"] by simp

lemma ceiling_rat_numeral:
  "\<lceil>(numeral a :: rat) / numeral b\<rceil> = - (- numeral a div numeral b)"
  using floor_divide_of_int_eq [where ?'a = rat, of "- numeral a" "numeral b"]
  by (simp add: ceiling_def)

lemma bitLength_0: "bitLength 0 = 0"
  by (simp add: bitLength.simps)

lemma bitLength_1: "bitLength (Suc 0) = Suc 0"
  by (simp add: bitLength.simps)

lemma bitLength_One: "bitLength (numeral Num.One) = Suc 0"
  by (simp add: bitLength.simps)

lemma bitLength_Bit0: "bitLength (numeral (Num.Bit0 k)) = Suc (bitLength (numeral k))"
  by (subst bitLength.simps) simp

lemma bitLength_Bit1: "bitLength (numeral (Num.Bit1 k)) = Suc (bitLength (numeral k))"
  by (subst bitLength.simps) simp

lemma bitLength_1': "bitLength 1 = Suc 0"
  by (simp add: bitLength.simps)

lemma fl_zero: "fl 0 = 0"
  by (simp add: fl_def)

lemma fl_minus: "fl (- x) = - fl x"
  by (simp add: fl_def Let_def)

lemma fl_pos:
  "0 < x \<Longrightarrow>
   fl x = of_int (roundHalfEven (x / pow2 (max (expo x) (- 1022) - 52))) *
          pow2 (max (expo x) (- 1022) - 52)"
  by (simp add: fl_def Let_def)

lemma roundHalfEven_unfold:
  "roundHalfEven r =
     (if r - of_int \<lfloor>r\<rfloor> < 1 / 2 then \<lfloor>r\<rfloor>
      else if r - of_int \<lfloor>r\<rfloor> > 1 / 2 then \<lfloor>r\<rfloor> + 1
      else if even \<lfloor>r\<rfloor> then \<lfloor>r\<rfloor> else \<lfloor>r\<rfloor> + 1)"
  by (simp add: roundHalfEven_def Let_def)

lemmas fl_eval = fl_zero fl_minus fl_pos roundHalfEven_unfold expo_def pow2_def
  bitLength_0 bitLength_1 bitLength_1' bitLength_One bitLength_Bit0 bitLength_Bit1
  floor_rat_numeral ceiling_rat_numeral fadd_def fsub_def fmul_def fdiv_def

text \<open>
  The constants and the example streams as numbers.
\<close>

lemma eps_value: "eps = 4722366482869645 / 4722366482869645213696"
  by (simp add: eps_def fl_eval)

lemma millionth: "fl (1 / 1000000) = 4722366482869645 / 4722366482869645213696"
  by (simp add: fl_eval)

lemma fresh_value:
  "fresh =
     \<lparr> sid = 1, sender = ''You (Local)'', recipient = ''bob'', total = 100, rate = 1,
       start = 1000000, endT = 1100000, cancelledAt = None, claimed = 0, status = Active,
       createdAt = 999000 \<rparr>"
  by (simp add: fresh_def createStreamObject_def fl_eval)

lemma slowStream_value:
  "slowStream =
     \<lparr> sid = 3, sender = ''You (Local)'', recipient = ''bob'', total = 1,
       rate = 7378697629483821 / 36893488147419103232,
       start = 0, endT = 5000000, cancelledAt = None, claimed = 0, status = Active,
       createdAt = 0 \<rparr>"
  by (simp add: slowStream_def createStreamObject_def fl_eval)

lemma acrossEpoch_value:
  "acrossEpoch =
     \<lparr> sid = 1, sender = ''You (Local)'', recipient = ''bob'', total = 100, rate = 1,
       start = - 50000, endT = 50000, cancelledAt = None, claimed = 0, status = Active,
       createdAt = - 60000 \<rparr>"
  by (simp add: acrossEpoch_def createStreamObject_def fl_eval)

lemma thirds_value:
  "thirds =
     \<lparr> sid = 1, sender = ''You (Local)'', recipient = ''bob'', total = 100,
       rate = 6004799503160661 / 18014398509481984,
       start = 0, endT = 300000, cancelledAt = None, claimed = 0, status = Active,
       createdAt = 0 \<rparr>"
  by (simp add: thirds_def createStreamObject_def fl_eval)

lemmas script_eval = calcAccrued_def effectiveEnd_def cancelStream_def cancelMutation_def
  claimForStream_def claimMutation_def findStream_def renderAll_def Let_def eps_value fl_eval

lemma fl_nonneg: "0 \<le> x \<Longrightarrow> 0 \<le> fl x"
proof (cases "x = 0")
  case True
  then show ?thesis by (simp add: fl_zero)
next
  case False
  assume "0 \<le> x"
  with False have pos: "0 < x" by simp
  have p: "0 < pow2 k" for k by (simp add: pow2_def)
  have "0 \<le> x / pow2 (max (expo x) (- 1022) - 52)"
    using pos p by (simp add: less_imp_le)
  then have "0 \<le> roundHalfEven (x / pow2 (max (expo x) (- 1022) - 52))"
    by (simp add: roundHalfEven_unfold)
  then show ?thesis using pos p by (simp add: fl_pos less_imp_le)
qed

subsection \<open>Accrual\<close>

text \<open>
  C1, the script at the failing input. The stream of 100 for the window
  \<open>-50000 .. 50000\<close> is cancelled at the instant \<open>0\<close>, when 50 have accrued; the
  cancellation stores \<open>cancelledAt = 0\<close>. At instant \<open>30000\<close> the script accrues 80, where
  the formula with \<open>effectiveEnd = min(end, cancelledAt)\<close> gives 50.
\<close>

theorem calcAccrued_epoch:
  "cancelStream 1 0 0 [acrossEpoch] = (Inr 50, [epochCancelled]) \<and>
   calcAccrued epochCancelled 30000 = 80 \<and>
   accrued_spec epochCancelled 30000 = 50"
  by (simp add: acrossEpoch_value epochCancelled_def accrued_spec_def effectiveEnd_spec_def
      script_eval)

text \<open>
  With any other \<open>cancelledAt\<close>, or none, the script computes the formula.
\<close>

lemma calcAccrued_agrees:
  "cancelledAt s \<noteq> Some 0 \<Longrightarrow> calcAccrued s now = accrued_spec s now"
  by (simp add: calcAccrued_def accrued_spec_def effectiveEnd_def effectiveEnd_spec_def Let_def
      split: option.splits)

subsection \<open>The reconciler sweep\<close>

lemma length_updateStatuses: "length (updateStatuses now ss) = length ss"
  by (induction ss) simp_all

lemma nth_updateStatuses:
  "k < length ss \<Longrightarrow>
   updateStatuses now ss ! k =
     (if status (ss ! k) = Active \<and> endT (ss ! k) \<le> now
      then (ss ! k)\<lparr>status := Paid\<rparr> else ss ! k)"
proof (induction ss arbitrary: k)
  case Nil
  then show ?case by simp
next
  case (Cons s ss)
  show ?case
  proof (cases k)
    case 0
    then show ?thesis by simp
  next
    case (Suc j)
    with Cons show ?thesis by simp
  qed
qed

lemma updateStatuses_idem: "updateStatuses now (updateStatuses now ss) = updateStatuses now ss"
  by (induction ss) simp_all

text \<open>
  C9. A sweep at instant \<open>now\<close> keeps the array's length, turns every stream that is Active
  with \<open>now >= end\<close> into the same stream with status Paid (whatever its \<open>claimed\<close>), leaves
  every other stream as it is, and a second sweep at the same instant changes nothing.
\<close>

theorem updateStatuses_sweep:
  "length (updateStatuses now ss) = length ss \<and>
   (\<forall>k < length ss.
      updateStatuses now ss ! k =
        (if status (ss ! k) = Active \<and> endT (ss ! k) \<le> now
         then (ss ! k)\<lparr>status := Paid\<rparr> else ss ! k)) \<and>
   updateStatuses now (updateStatuses now ss) = updateStatuses now ss"
  by (simp add: length_updateStatuses nth_updateStatuses updateStatuses_idem)

theorem updateStatuses_sweep_witness:
  "updateStatuses 200000 sweepExample ! 0 = sweptUnclaimed \<and>
   claimed (updateStatuses 200000 sweepExample ! 0) = 0 \<and>
   updateStatuses 200000 sweepExample ! 1 = sweepExample ! 1 \<and>
   updateStatuses 200000 sweepExample ! 2 = sweepExample ! 2"
  using updateStatuses_sweep [of 200000 sweepExample]
  by (simp add: sweepExample_def sweptUnclaimed_def)

subsection \<open>Lookup and in-place update\<close>

lemma findStream_sid: "findStream i ss = Some s \<Longrightarrow> sid s = i"
  unfolding findStream_def by (induction ss) (auto split: if_splits)

lemma findStream_updateFirst:
  "findStream i ss = Some s \<Longrightarrow> sid (f s) = i \<Longrightarrow> findStream i (updateFirst i f ss) = Some (f s)"
  unfolding findStream_def by (induction ss) (auto split: if_splits)

lemma findStream_updateStatuses:
  "findStream i (updateStatuses now ss) = map_option (sweepOne now) (findStream i ss)"
  unfolding findStream_def by (induction ss) (simp_all add: sweepOne_def)

lemma sid_cancelMutation: "sid (cancelMutation now s) = sid s"
  by (simp add: cancelMutation_def Let_def)

lemma sid_claimMutation: "sid (claimMutation a n2 s) = sid s"
  by (simp add: claimMutation_def Let_def)

subsection \<open>Cancelling\<close>

text \<open>
  C3. If the stream found under the id is Active, \<open>cancelStream\<close> succeeds at every instant
  \<open>now\<close>: it reports \<open>total - calcAccrued s now\<close>, and afterwards the stream found under
  the id is the old one with \<open>cancelledAt = now\<close> and with status Paid when
  \<open>claimed + 1e-6 >= calcAccrued s now\<close> and Cancelled otherwise; \<open>claimed\<close> and all other
  fields are as before. The sum, the difference and \<open>1e-6\<close> are those of the script's
  binary64 arithmetic.
\<close>

theorem cancelStream_active:
  assumes "findStream i streams = Some s" and "status s = Active"
  shows "fst (cancelStream i now nowR streams) = Inr (fsub (total s) (calcAccrued s now)) \<and>
         findStream i (snd (cancelStream i now nowR streams)) =
           Some (s\<lparr>status :=
                     (if fadd (claimed s) (fl (1 / 1000000)) \<ge> calcAccrued s now
                      then Paid else Cancelled),
                   cancelledAt := Some now\<rparr>)"
proof -
  have id: "sid (cancelMutation now s) = i"
    using assms(1) by (simp add: sid_cancelMutation findStream_sid)
  have found: "findStream i (updateFirst i (cancelMutation now) streams) = Some (cancelMutation now s)"
    using assms(1) id by (rule findStream_updateFirst)
  have kept: "sweepOne nowR (cancelMutation now s) = cancelMutation now s"
    by (simp add: sweepOne_def cancelMutation_def Let_def)
  have shape: "cancelMutation now s =
      s\<lparr>status :=
          (if fadd (claimed s) (fl (1 / 1000000)) \<ge> calcAccrued s now then Paid else Cancelled),
        cancelledAt := Some now\<rparr>"
    by (simp add: cancelMutation_def eps_def Let_def)
  show ?thesis
    using assms found kept shape
    by (simp add: cancelStream_def renderAll_def findStream_updateStatuses Let_def)
qed

text \<open>
  Five cancellations: with nothing claimed (Cancelled), with all 30 claimed (Paid), with
  half a millionth less than 30 claimed (Paid by the tolerance), of the stream of 1 over
  5000 seconds after 5 ms (the product is above \<open>1e-6\<close>: Cancelled) and of the stream of
  rate \<open>0.001\<close> after 1 ms (the product is \<open>1e-6\<close>: Paid).
\<close>

theorem cancelStream_active_witness:
  "findStream 1 [fresh] = Some fresh \<and> status fresh = Active \<and>
   fst (cancelStream 1 1030000 1030001 [fresh]) = Inr 70 \<and>
   findStream 1 (snd (cancelStream 1 1030000 1030001 [fresh])) =
     Some (fresh\<lparr>status := Cancelled, cancelledAt := Some 1030000\<rparr>) \<and>
   findStream 1 [claimed30] = Some claimed30 \<and> status claimed30 = Active \<and>
   fst (cancelStream 1 1030000 1030001 [claimed30]) = Inr 70 \<and>
   findStream 1 (snd (cancelStream 1 1030000 1030001 [claimed30])) =
     Some (claimed30\<lparr>status := Paid, cancelledAt := Some 1030000\<rparr>) \<and>
   findStream 1 [claimedNearly30] = Some claimedNearly30 \<and> status claimedNearly30 = Active \<and>
   claimed claimedNearly30 < calcAccrued claimedNearly30 1030000 \<and>
   findStream 1 (snd (cancelStream 1 1030000 1030001 [claimedNearly30])) =
     Some (claimedNearly30\<lparr>status := Paid, cancelledAt := Some 1030000\<rparr>) \<and>
   findStream 3 [slowStream] = Some slowStream \<and> status slowStream = Active \<and>
   fst (cancelStream 3 5 5 [slowStream]) = Inr (9007190247541737 / 9007199254740992) \<and>
   findStream 3 (snd (cancelStream 3 5 5 [slowStream])) =
     Some (slowStream\<lparr>status := Cancelled, cancelledAt := Some 5\<rparr>) \<and>
   findStream 4 [milliStream] = Some milliStream \<and> status milliStream = Active \<and>
   findStream 4 (snd (cancelStream 4 1 1 [milliStream])) =
     Some (milliStream\<lparr>status := Paid, cancelledAt := Some 1\<rparr>)"
proof -
  have f1: "findStream 1 [fresh] = Some fresh" and a1: "status fresh = Active"
    by (simp_all add: findStream_def fresh_value)
  have f2: "findStream 1 [claimed30] = Some claimed30" and a2: "status claimed30 = Active"
    by (simp_all add: findStream_def claimed30_def)
  have f3: "findStream 1 [claimedNearly30] = Some claimedNearly30"
    and a3: "status claimedNearly30 = Active"
    by (simp_all add: findStream_def claimedNearly30_def)
  have f4: "findStream 3 [slowStream] = Some slowStream" and a4: "status slowStream = Active"
    by (simp_all add: findStream_def slowStream_value)
  have f5: "findStream 4 [milliStream] = Some milliStream" and a5: "status milliStream = Active"
    by (simp_all add: findStream_def milliStream_def)
  have v1: "calcAccrued fresh 1030000 = 30" "total fresh = 100" "claimed fresh = 0"
    by (simp_all add: fresh_value calcAccrued_def effectiveEnd_def Let_def fl_eval)
  have v2: "calcAccrued claimed30 1030000 = 30" "total claimed30 = 100" "claimed claimed30 = 30"
    by (simp_all add: claimed30_def calcAccrued_def effectiveEnd_def Let_def fl_eval)
  have v3: "calcAccrued claimedNearly30 1030000 = 30"
    "claimed claimedNearly30 = 527765572536387 / 17592186044416"
    by (simp_all add: claimedNearly30_def calcAccrued_def effectiveEnd_def Let_def fl_eval)
  have v4: "calcAccrued slowStream 5 = 2361183241434823 / 2361183241434822606848"
    "total slowStream = 1" "claimed slowStream = 0"
    by (simp_all add: slowStream_value calcAccrued_def effectiveEnd_def Let_def fl_eval)
  have v5: "calcAccrued milliStream 1 = 4722366482869645 / 4722366482869645213696"
    "claimed milliStream = 0"
    by (simp_all add: milliStream_def calcAccrued_def effectiveEnd_def Let_def fl_eval)
  from cancelStream_active [OF f1 a1, of 1030000 1030001]
    cancelStream_active [OF f2 a2, of 1030000 1030001]
    cancelStream_active [OF f3 a3, of 1030000 1030001]
    cancelStream_active [OF f4 a4, of 5 5]
    cancelStream_active [OF f5 a5, of 1 1]
    f1 a1 f2 a2 f3 a3 f4 a4 f5 a5
  show ?thesis
    by (simp add: v1 v2 v3 v4 v5 millionth fl_eval)
qed

text \<open>
  C4, the script at the failing input. \<open>cancelStream\<close> takes no caller and checks no
  sender: the Active stream of sender \<open>alice\<close> is cancelled, whoever asks, with 70
  returned.
\<close>

theorem cancelStream_unauthorised:
  "sender aliceStream \<noteq> ''mallory'' \<and>
   cancelStream 5 1030000 1030000 [aliceStream] =
     (Inr 70, [aliceStream\<lparr>status := Cancelled, cancelledAt := Some 1030000\<rparr>])"
  by (simp add: aliceStream_def script_eval)

text \<open>
  The failures \<open>cancelStream\<close> does have: no stream under the id, and a stream that is not
  Active; both leave the array as it was.
\<close>

lemma cancelStream_failures:
  "(findStream i streams = None \<longrightarrow>
      cancelStream i now nowR streams = (Inl StreamNotFound, streams)) \<and>
   (\<forall>s. findStream i streams = Some s \<and> status s \<noteq> Active \<longrightarrow>
      cancelStream i now nowR streams = (Inl NotActive, streams)) \<and>
   (\<forall>e. fst (cancelStream i now nowR streams) = Inl e \<longrightarrow>
      snd (cancelStream i now nowR streams) = streams \<and>
      (e = StreamNotFound \<or> e = NotActive))"
  by (auto simp: cancelStream_def Let_def split: option.splits)

subsection \<open>Claiming\<close>

text \<open>
  A claim by the recipient with a positive claimable balance pays that balance out; the
  stream found under the id afterwards is the old one after the mutation of lines 284-289
  and the sweep.
\<close>

lemma claimForStream_pays:
  assumes "findStream i ss = Some s"
    and "r \<noteq> []" and "lower r = lower (recipient s)"
    and "0 < fsub (calcAccrued s now) (claimed s)"
  shows "fst (claimForStream lower i r now now2 nowR ss) =
           Inr (fsub (calcAccrued s now) (claimed s))"
    and "findStream i (snd (claimForStream lower i r now now2 nowR ss)) =
           Some (sweepOne nowR (claimMutation (fsub (calcAccrued s now) (claimed s)) now2 s))"
proof -
  let ?c = "fsub (calcAccrued s now) (claimed s)"
  have pos: "max 0 ?c = ?c" and "\<not> max 0 ?c \<le> 0"
    using assms(4) by simp_all
  then show "fst (claimForStream lower i r now now2 nowR ss) = Inr ?c"
    using assms(1-3) by (simp add: claimForStream_def Let_def)
  have "sid (claimMutation ?c now2 s) = i"
    using assms(1) by (simp add: sid_claimMutation findStream_sid)
  with assms(1) have "findStream i (updateFirst i (claimMutation ?c now2) ss) =
      Some (claimMutation ?c now2 s)"
    by (rule findStream_updateFirst)
  then show "findStream i (snd (claimForStream lower i r now now2 nowR ss)) =
           Some (sweepOne nowR (claimMutation ?c now2 s))"
    using assms pos
    by (simp add: claimForStream_def Let_def renderAll_def findStream_updateStatuses)
qed

text \<open>
  C2, the script at the failing input. The stream of 100 over 100 seconds, Active and not
  cancelled, is claimed by its recipient 50 seconds after its start, all clock readings
  being that instant: 50 is paid out, \<open>claimed = 50 < total\<close>, and the status is Paid.
\<close>

theorem claimForStream_midstream:
  "status fresh = Active \<and> cancelledAt fresh = None \<and> 1050000 < endT fresh \<and>
   claimForStream lower 1 ''bob'' 1050000 1050000 1050000 [fresh] =
     (Inr 50, [fresh\<lparr>claimed := 50, status := Paid\<rparr>]) \<and>
   claimed (fresh\<lparr>claimed := 50, status := Paid\<rparr>) < total fresh"
  by (simp add: fresh_value script_eval)

text \<open>
  C10, the script at the failing input. The stream of 100 over 300 seconds is claimed
  at 998 ms and again at 9103 ms, every reading of a claim being its instant. After the
  second claim \<open>claimed\<close> is \<open>3.0343333333333327\<close> and the amount accrued at 9103 ms is
  \<open>3.034333333333333\<close>, one unit in the last place more; a third claim at the same
  instant is not refused but pays \<open>2^-51\<close>.
\<close>

theorem claim_leaves_dust:
  "claimForStream lower 1 ''bob'' 998 998 998 [thirds] =
     (Inr (1498197476038585 / 4503599627370496), [thirdsClaimedOnce]) \<and>
   claimForStream lower 1 ''bob'' 9103 9103 9103 [thirdsClaimedOnce] =
     (Inr (1520903124159911 / 562949953421312), [thirdsClaimedTwice]) \<and>
   calcAccrued thirdsClaimedTwice 9103 = 6832711234658937 / 2251799813685248 \<and>
   claimed thirdsClaimedTwice = 854088904332367 / 281474976710656 \<and>
   claimForStream lower 1 ''bob'' 9103 9103 9103 [thirdsClaimedTwice] =
     (Inr (1 / 2251799813685248),
      [thirdsClaimedTwice\<lparr>claimed := 6832711234658937 / 2251799813685248\<rparr>])"
  by (simp add: thirds_value thirdsClaimedOnce_def thirdsClaimedTwice_def script_eval)

subsection \<open>Accrual after a cancellation before the start\<close>

text \<open>
  C7, the script at the failing input. The stream created for the window
  \<open>100000 .. 200000\<close> is cancelled at \<open>50000\<close>, before its start; the cancellation
  returns the whole 100, and at instant \<open>150000\<close> the stream accrues \<open>-50\<close>.
\<close>

theorem calcAccrued_negative:
  "cancelStream 1 50000 50000 [createStreamObject ''bob'' 100000 200000 (Some 100) 1 0] =
     (Inr 100, [earlyCancelled]) \<and>
   calcAccrued earlyCancelled 150000 = - 50"
  by (simp add: earlyCancelled_def createStreamObject_def script_eval)

text \<open>
  Where the bounds do hold: the upper one always, the lower one when the window is not empty.
\<close>

lemma calcAccrued_le_total: "0 \<le> total s \<Longrightarrow> calcAccrued s now \<le> total s"
  by (simp add: calcAccrued_def Let_def)

lemma calcAccrued_nonneg:
  assumes "0 \<le> rate s" and "0 \<le> total s" and "start s \<le> effectiveEnd s"
  shows "0 \<le> calcAccrued s now"
proof (cases "now \<le> start s")
  case True
  then show ?thesis by (simp add: calcAccrued_def)
next
  case False
  then have "0 \<le> (of_int (min now (effectiveEnd s)) :: rat) - of_int (start s)"
    using assms(3) by simp
  then have "0 \<le> fsub (of_int (min now (effectiveEnd s))) (of_int (start s))"
    unfolding fsub_def by (rule fl_nonneg)
  then have "0 \<le> fdiv (fsub (of_int (min now (effectiveEnd s))) (of_int (start s))) 1000"
    unfolding fdiv_def by (intro fl_nonneg) simp
  then have "0 \<le> fmul (rate s)
      (fdiv (fsub (of_int (min now (effectiveEnd s))) (of_int (start s))) 1000)"
    unfolding fmul_def using assms(1) by (intro fl_nonneg) simp
  then show ?thesis using False assms(2) by (simp add: calcAccrued_def Let_def)
qed

subsection \<open>Creating\<close>

text \<open>
  C8, counterexample. \<open>createStreamObject\<close> returns an Active stream when \<open>end <= start\<close>
  (the duration is taken as one second) and when the total is \<open>0\<close> (the fixed rate is
  used); nothing is rejected.
\<close>

theorem createStreamObject_counterexample:
  "createStreamObject ''bob'' 2000 1000 (Some 100) 7 0 =
     \<lparr> sid = 7, sender = ''You (Local)'', recipient = ''bob'', total = 100, rate = 100,
       start = 2000, endT = 1000, cancelledAt = None, claimed = 0, status = Active,
       createdAt = 0 \<rparr> \<and>
   createStreamObject ''bob'' 1000 61000 (Some 0) 8 0 =
     \<lparr> sid = 8, sender = ''You (Local)'', recipient = ''bob'', total = 1,
       rate = 4803839602528529 / 288230376151711744,
       start = 1000, endT = 61000, cancelledAt = None, claimed = 0, status = Active,
       createdAt = 0 \<rparr>"
  by (simp add: createStreamObject_def FIXED_PER_MINUTE_def fl_eval)

text \<open>
  C8, amended. \<open>createStreamObject\<close> never fails. The stream it returns is Active with
  \<open>claimed = 0\<close>, no \<open>cancelledAt\<close> and the given start, end and recipient. With
  \<open>seconds = max(1, (end - start) / 1000)\<close>: when the total given is positive, \<open>total\<close> is
  that number and \<open>rate = total / seconds\<close>; when it is \<open>null\<close> or not positive,
  \<open>total = 1 * (seconds / 60)\<close> and \<open>rate = 1 / 60\<close>. The difference, the quotients and
  the product are those of the script's binary64 arithmetic.
\<close>

theorem createStreamObject_amended:
  "status (createStreamObject r st en tot uid cr) = Active \<and>
   claimed (createStreamObject r st en tot uid cr) = 0 \<and>
   cancelledAt (createStreamObject r st en tot uid cr) = None \<and>
   start (createStreamObject r st en tot uid cr) = st \<and>
   endT (createStreamObject r st en tot uid cr) = en \<and>
   recipient (createStreamObject r st en tot uid cr) = r \<and>
   (\<forall>t. tot = Some t \<and> t > 0 \<longrightarrow>
      total (createStreamObject r st en tot uid cr) = t \<and>
      rate (createStreamObject r st en tot uid cr) =
        fdiv t (max 1 (fdiv (fsub (of_int en) (of_int st)) 1000))) \<and>
   ((tot = None \<or> (\<exists>t. tot = Some t \<and> t \<le> 0)) \<longrightarrow>
      total (createStreamObject r st en tot uid cr) =
        fmul 1 (fdiv (max 1 (fdiv (fsub (of_int en) (of_int st)) 1000)) 60) \<and>
      rate (createStreamObject r st en tot uid cr) = fdiv 1 60)"
  by (auto simp: createStreamObject_def FIXED_PER_MINUTE_def Let_def split: option.splits)

theorem createStreamObject_amended_witness:
  "total (createStreamObject ''bob'' 1000000 1100000 (Some 100) 1 999000) = 100 \<and>
   rate (createStreamObject ''bob'' 1000000 1100000 (Some 100) 1 999000) = 1 \<and>
   total (createStreamObject ''bob'' 1000 61000 None 8 0) = 1 \<and>
   rate (createStreamObject ''bob'' 1000 61000 None 8 0) =
     4803839602528529 / 288230376151711744 \<and>
   rate (createStreamObject ''bob'' 1000 1000 (Some 5) 8 0) = 5 \<and>
   rate (createStreamObject ''bob'' 0 300000 (Some 100) 1 0) =
     6004799503160661 / 18014398509481984"
  using createStreamObject_amended [of "''bob''" 1000000 1100000 "Some 100" 1 999000]
    createStreamObject_amended [of "''bob''" 1000 61000 None 8 0]
    createStreamObject_amended [of "''bob''" 1000 1000 "Some 5" 8 0]
    createStreamObject_amended [of "''bob''" 0 300000 "Some 100" 1 0]
  by (simp add: fl_eval)

subsection \<open>Streams over sequences of operations\<close>

lemma laterState_refl: "laterState s s"
  by (simp add: laterState_def)

lemma laterState_trans: "laterState a b \<Longrightarrow> laterState b c \<Longrightarrow> laterState a c"
  unfolding laterState_def by (cases "status a"; cases "status b"; simp)

lemma laterState_sweepOne: "laterState s (sweepOne n s)"
  by (simp add: laterState_def sweepOne_def)

lemma laterState_cancelMutation: "status s = Active \<Longrightarrow> laterState s (cancelMutation now s)"
  by (simp add: laterState_def cancelMutation_def Let_def)

lemma laterState_claimMutation: "laterState s (claimMutation a n2 s)"
  by (simp add: laterState_def claimMutation_def Let_def)

lemma laterState_settled: "laterState s s' \<Longrightarrow> cancelledSettled s \<Longrightarrow> cancelledSettled s'"
  unfolding laterState_def cancelledSettled_def by (cases "status s"; auto)

lemma later_updateStatuses: "list_all2 laterState ss (updateStatuses n ss)"
  by (induction ss) (simp_all add: laterState_def)

lemma later_updateFirst:
  "findStream i ss = Some s \<Longrightarrow> laterState s (f s) \<Longrightarrow> list_all2 laterState ss (updateFirst i f ss)"
  unfolding findStream_def
  by (induction ss) (auto simp: laterState_refl list.rel_refl split: if_splits)

lemma later_claimAllLoop: "list_all2 laterState ss (snd (claimAllLoop lower name now now2 k acc ss))"
  by (induction ss arbitrary: k acc)
     (simp_all add: Let_def split_def laterState_refl laterState_claimMutation)

lemma list_all2_later_trans:
  "list_all2 laterState xs ys \<Longrightarrow> list_all2 laterState ys zs \<Longrightarrow> list_all2 laterState xs zs"
  by (rule list_all2_trans [where ?P1.0 = laterState and ?P2.0 = laterState])
     (auto intro: laterState_trans)

lemma later_cancelStream: "list_all2 laterState ss (snd (cancelStream i now nowR ss))"
proof (cases "findStream i ss")
  case None
  then show ?thesis by (simp add: cancelStream_def list.rel_refl laterState_refl)
next
  case (Some s)
  show ?thesis
  proof (cases "status s = Active")
    case True
    have "list_all2 laterState ss (updateFirst i (cancelMutation now) ss)"
      using Some True by (intro later_updateFirst laterState_cancelMutation)
    then have "list_all2 laterState ss (updateStatuses nowR (updateFirst i (cancelMutation now) ss))"
      using later_updateStatuses by (rule list_all2_later_trans)
    then show ?thesis using Some True by (simp add: cancelStream_def renderAll_def Let_def)
  next
    case False
    then show ?thesis using Some by (simp add: cancelStream_def list.rel_refl laterState_refl)
  qed
qed

lemma later_claimForStream: "list_all2 laterState ss (snd (claimForStream lower i r now now2 nowR ss))"
proof (cases "findStream i ss")
  case None
  then show ?thesis by (simp add: claimForStream_def list.rel_refl laterState_refl)
next
  case (Some s)
  have "list_all2 laterState ss (updateFirst i (claimMutation a now2) ss)" for a
    using Some by (intro later_updateFirst laterState_claimMutation)
  then have "list_all2 laterState ss (updateStatuses nowR (updateFirst i (claimMutation a now2) ss))" for a
    using later_updateStatuses by (rule list_all2_later_trans)
  then show ?thesis
    using Some by (simp add: claimForStream_def renderAll_def Let_def list.rel_refl laterState_refl)
qed

lemma later_claimAll: "list_all2 laterState ss (snd (claimAll lower name now now2 nowR ss))"
proof (cases "name = []")
  case True
  then show ?thesis by (simp add: claimAll_def list.rel_refl laterState_refl)
next
  case False
  have "list_all2 laterState ss (updateStatuses nowR (snd (claimAllLoop lower name now now2 0 0 ss)))"
    using later_claimAllLoop later_updateStatuses by (rule list_all2_later_trans)
  then show ?thesis using False by (simp add: claimAll_def renderAll_def split_def Let_def)
qed

lemma later_applyOp:
  assumes "k < length ss"
  shows "k < length (applyOp lower x ss) \<and> laterState (ss ! k) (applyOp lower x ss ! k)"
proof (cases x)
  case (Create r st en tot uid cr)
  then show ?thesis using assms by (simp add: create_def nth_append laterState_refl)
next
  case (Claim i r now now2 nowR)
  then show ?thesis
    using assms later_claimForStream [of ss lower i r now now2 nowR]
    by (simp add: list_all2_conv_all_nth)
next
  case (Cancel i now nowR)
  then show ?thesis
    using assms later_cancelStream [of ss i now nowR] by (simp add: list_all2_conv_all_nth)
next
  case (ClaimAll name now now2 nowR)
  then show ?thesis
    using assms later_claimAll [of ss lower name now now2 nowR] by (simp add: list_all2_conv_all_nth)
next
  case (Reconcile now)
  then show ?thesis
    using assms later_updateStatuses [of ss now]
    by (simp add: renderAll_def list_all2_conv_all_nth)
qed

lemma applyOp_shape:
  "length (applyOp lower x ss) = length ss \<or>
   (\<exists>c. cancelledAt c = None \<and> applyOp lower x ss = ss @ [c])"
proof (cases x)
  case (Create r st en tot uid cr)
  have "cancelledAt (createStreamObject r st en tot uid cr) = None"
    by (simp add: createStreamObject_def Let_def split_def)
  then show ?thesis using Create by (simp add: create_def)
next
  case (Claim i r now now2 nowR)
  then show ?thesis
    using later_claimForStream [of ss lower i r now now2 nowR] by (simp add: list_all2_lengthD)
next
  case (Cancel i now nowR)
  then show ?thesis
    using later_cancelStream [of ss i now nowR] by (simp add: list_all2_lengthD)
next
  case (ClaimAll name now now2 nowR)
  then show ?thesis
    using later_claimAll [of ss lower name now now2 nowR] by (simp add: list_all2_lengthD)
next
  case (Reconcile now)
  then show ?thesis by (simp add: renderAll_def length_updateStatuses)
qed

lemma later_run:
  "k < length ss \<Longrightarrow> k < length (run lower ops ss) \<and> laterState (ss ! k) (run lower ops ss ! k)"
proof (induction ops arbitrary: ss)
  case Nil
  then show ?case by (simp add: laterState_refl)
next
  case (Cons x xs)
  from later_applyOp [OF Cons.prems, of lower x]
  have k: "k < length (applyOp lower x ss)" and l: "laterState (ss ! k) (applyOp lower x ss ! k)" by simp_all
  from Cons.IH [OF k] l show ?case by (auto intro: laterState_trans)
qed

lemma run_append: "run lower (xs @ ys) ss = run lower ys (run lower xs ss)"
  by (induction xs arbitrary: ss) simp_all

lemma settled_applyOp:
  assumes "\<forall>s \<in> set ss. cancelledSettled s"
  shows "\<forall>s \<in> set (applyOp lower x ss). cancelledSettled s"
proof
  fix s' assume "s' \<in> set (applyOp lower x ss)"
  then obtain k where k: "k < length (applyOp lower x ss)" and s': "s' = applyOp lower x ss ! k"
    by (auto simp: in_set_conv_nth)
  show "cancelledSettled s'"
  proof (cases "k < length ss")
    case True
    from later_applyOp [OF True, of lower x] assms True s' show ?thesis
      by (auto intro: laterState_settled)
  next
    case False
    with k s' applyOp_shape [of lower x ss] show ?thesis
      by (auto simp: nth_append cancelledSettled_def)
  qed
qed

lemma settled_run:
  "\<forall>s \<in> set ss. cancelledSettled s \<Longrightarrow> \<forall>s \<in> set (run lower ops ss). cancelledSettled s"
proof (induction ops arbitrary: ss)
  case Nil
  then show ?case by simp
next
  case (Cons x xs)
  have "\<forall>s \<in> set (applyOp lower x ss). cancelledSettled s"
    using Cons.prems by (rule settled_applyOp)
  then have "\<forall>s \<in> set (run lower xs (applyOp lower x ss)). cancelledSettled s"
    by (rule Cons.IH)
  then show ?case by simp
qed

lemma claimMutation_Paid:
  "status s = Paid \<Longrightarrow> claimMutation a n2 s = s\<lparr>claimed := fadd (claimed s) a\<rparr>"
  by (cases s) (simp add: claimMutation_def Let_def)

text \<open>
  C6, counterexample. After creating a stream that starts at \<open>100000\<close> and cancelling it at
  \<open>50000\<close>, its \<open>cancelledAt\<close> is \<open>50000\<close>, before its start.
\<close>

theorem cancelledAt_counterexample:
  "snd (cancelStream 1 50000 50000 (create ''bob'' 100000 200000 (Some 100) 1 0 [])) =
     [earlyCancelled] \<and>
   cancelledAt earlyCancelled = Some 50000 \<and> start earlyCancelled = 100000"
  by (simp add: earlyCancelled_def create_def createStreamObject_def script_eval)

text \<open>
  C6, amended. After every sequence of create, claim, claim-all, cancel and sweep
  operations, a stream whose \<open>cancelledAt\<close> is set keeps that \<open>cancelledAt\<close> (and its place
  and id) through every later sequence of operations. \<open>cancelledAt\<close> is the instant of the
  cancellation, which may lie before \<open>start\<close>.
\<close>

theorem cancelledAt_frozen:
  assumes "k < length (run lower ops [])" and "cancelledAt (run lower ops [] ! k) = Some c"
  shows "k < length (run lower (ops @ later) []) \<and>
         cancelledAt (run lower (ops @ later) [] ! k) = Some c \<and>
         sid (run lower (ops @ later) [] ! k) = sid (run lower ops [] ! k)"
proof -
  let ?ss = "run lower ops []"
  have "\<forall>s \<in> set ?ss. cancelledSettled s"
    by (rule settled_run) simp
  with assms(1) have "cancelledSettled (?ss ! k)" by simp
  with assms(2) have settled: "status (?ss ! k) \<noteq> Active"
    by (simp add: cancelledSettled_def)
  from later_run [OF assms(1), of lower later]
  have len: "k < length (run lower later ?ss)"
    and l: "laterState (?ss ! k) (run lower later ?ss ! k)"
    by simp_all
  from l settled assms(2) have "cancelledAt (run lower later ?ss ! k) = Some c"
    and "sid (run lower later ?ss ! k) = sid (?ss ! k)"
    by (simp_all add: laterState_def)
  with len show ?thesis by (simp add: run_append)
qed

theorem cancelledAt_frozen_witness:
  "\<forall>lower. 0 < length (run lower cancelMid []) \<and>
      cancelledAt (run lower cancelMid [] ! 0) = Some 1030000 \<and>
      cancelledAt (run lower (cancelMid @ afterCancel) [] ! 0) = Some 1030000"
proof
  fix lower
  have r: "run lower cancelMid [] =
      [\<lparr> sid = 1, sender = ''You (Local)'', recipient = ''bob'', total = 100, rate = 1,
         start = 1000000, endT = 1100000, cancelledAt = Some 1030000, claimed = 0,
         status = Cancelled, createdAt = 999000 \<rparr>]"
    by (simp add: cancelMid_def create_def createStreamObject_def script_eval)
  then have h1: "0 < length (run lower cancelMid [])"
    and h2: "cancelledAt (run lower cancelMid [] ! 0) = Some 1030000"
    by simp_all
  from cancelledAt_frozen [OF h1 h2, of afterCancel] h1 h2
  show "0 < length (run lower cancelMid []) \<and>
      cancelledAt (run lower cancelMid [] ! 0) = Some 1030000 \<and>
      cancelledAt (run lower (cancelMid @ afterCancel) [] ! 0) = Some 1030000"
    by simp
qed

text \<open>
  C5, counterexample. The stream that the sweep marked Paid with nothing claimed is
  claimed by its recipient: the claim pays 100 and \<open>claimed\<close> goes from 0 to 100.
\<close>

theorem paid_terminal_counterexample:
  "\<forall>lower. status sweptUnclaimed = Paid \<and> claimed sweptUnclaimed = 0 \<and>
      claimForStream lower 1 ''bob'' 200000 200000 200000 [sweptUnclaimed] =
        (Inr 100, [sweptUnclaimed\<lparr>claimed := 100\<rparr>])"
  by (simp add: sweptUnclaimed_def script_eval)

text \<open>
  C5, amended. On a stream whose status is Paid, \<open>cancelStream\<close> fails with \<open>NotActive\<close> and
  changes nothing; \<open>claimForStream\<close> keeps the status Paid and every field except
  \<open>claimed\<close>, to which it adds the amount it pays out (nothing when it fails); and no
  sequence of operations takes a stream out of Paid.
\<close>

theorem paid_terminal:
  "(\<forall>s. findStream i ss = Some s \<and> status s = Paid \<longrightarrow>
      cancelStream i now nowR ss = (Inl NotActive, ss) \<and>
      findStream i (snd (claimForStream lower i r now now2 nowR ss)) =
        Some (case fst (claimForStream lower i r now now2 nowR ss) of
                Inl e \<Rightarrow> s
              | Inr a \<Rightarrow> s\<lparr>claimed := fadd (claimed s) a\<rparr>)) \<and>
   (\<forall>k. k < length ss \<and> status (ss ! k) = Paid \<longrightarrow>
      k < length (run lower ops ss) \<and> status (run lower ops ss ! k) = Paid)"
proof (intro conjI allI impI)
  fix s assume a: "findStream i ss = Some s \<and> status s = Paid"
  then have f: "findStream i ss = Some s" and p: "status s = Paid" by simp_all
  from f p show "cancelStream i now nowR ss = (Inl NotActive, ss)"
    by (simp add: cancelStream_def)
  have id: "sid (claimMutation x now2 s) = i" for x
    using findStream_sid [OF f] p by (simp add: claimMutation_Paid)
  have upd: "findStream i (updateFirst i (claimMutation x now2) ss) =
      Some (s\<lparr>claimed := fadd (claimed s) x\<rparr>)" for x
    using findStream_updateFirst [of i ss s "claimMutation x now2"] f id [of x] p
    by (simp add: claimMutation_Paid)
  have sw: "sweepOne nowR (s\<lparr>claimed := y\<rparr>) = s\<lparr>claimed := y\<rparr>" for y
    using p by (simp add: sweepOne_def)
  show "findStream i (snd (claimForStream lower i r now now2 nowR ss)) =
        Some (case fst (claimForStream lower i r now now2 nowR ss) of
                Inl e \<Rightarrow> s
              | Inr a \<Rightarrow> s\<lparr>claimed := fadd (claimed s) a\<rparr>)"
    using f upd sw
    by (simp add: claimForStream_def Let_def renderAll_def findStream_updateStatuses)
next
  fix k assume a: "k < length ss \<and> status (ss ! k) = Paid"
  then have k: "k < length ss" by simp
  from later_run [OF k, of lower ops] a
  show "k < length (run lower ops ss)" and "status (run lower ops ss ! k) = Paid"
    by (simp_all add: laterState_def)
qed

theorem paid_terminal_witness:
  "\<forall>lower. findStream 1 [sweptUnclaimed] = Some sweptUnclaimed \<and>
      status sweptUnclaimed = Paid \<and>
      cancelStream 1 200000 200000 [sweptUnclaimed] = (Inl NotActive, [sweptUnclaimed]) \<and>
      findStream 1 (snd (claimForStream lower 1 ''bob'' 200000 200000 200000 [sweptUnclaimed])) =
        Some (sweptUnclaimed\<lparr>claimed := 100\<rparr>) \<and>
      status (run lower onPaid [sweptUnclaimed] ! 0) = Paid"
proof
  fix lower
  have f: "findStream 1 [sweptUnclaimed] = Some sweptUnclaimed"
    and p: "status sweptUnclaimed = Paid" and c: "claimed sweptUnclaimed = 0"
    by (simp_all add: findStream_def sweptUnclaimed_def)
  have r: "fst (claimForStream lower 1 ''bob'' 200000 200000 200000 [sweptUnclaimed]) = Inr 100"
    by (simp add: sweptUnclaimed_def script_eval)
  have v: "fadd 0 100 = 100"
    by (simp add: fl_eval)
  from paid_terminal [of 1 "[sweptUnclaimed]" 200000 200000 lower "''bob''" 200000 onPaid]
    f p c r v
  show "findStream 1 [sweptUnclaimed] = Some sweptUnclaimed \<and>
      status sweptUnclaimed = Paid \<and>
      cancelStream 1 200000 200000 [sweptUnclaimed] = (Inl NotActive, [sweptUnclaimed]) \<and>
      findStream 1 (snd (claimForStream lower 1 ''bob'' 200000 200000 200000 [sweptUnclaimed])) =
        Some (sweptUnclaimed\<lparr>claimed := 100\<rparr>) \<and>
      status (run lower onPaid [sweptUnclaimed] ! 0) = Paid"
    by simp
qed

end
